theory Spec2Isabelle
  imports Main
begin

section \<open>Strings of the JavaScript runtime\<close>

text \<open>
  A JavaScript string is modelled as a \<open>string\<close> whose characters are the code units
  U+0000 .. U+00FF (Latin-1).  On that range the built-ins used by \<open>index.js\<close> are
  character-wise and are written out below.
\<close>

definition isWhiteSpace :: "char \<Rightarrow> bool" where
  \<comment> \<open>the WhiteSpace and LineTerminator code points below U+0100, as \<open>String.prototype.trim\<close> strips them\<close>
  "isWhiteSpace c = ((of_char c :: int) \<in> set [9, 10, 11, 12, 13, 32, 160])"

definition trim :: "string \<Rightarrow> string" where
  "trim s = rev (dropWhile isWhiteSpace (rev (dropWhile isWhiteSpace s)))"

definition lowerChar :: "char \<Rightarrow> char" where
  \<comment> \<open>A-Z and the Latin-1 capitals U+00C0 .. U+00DE (without the multiplication sign U+00D7)\<close>
  "lowerChar c =
     (let n = (of_char c :: int) in
      if (65 \<le> n \<and> n \<le> 90) \<or> (192 \<le> n \<and> n \<le> 222 \<and> n \<noteq> 215)
      then char_of (n + 32) else c)"

definition toLowerCase :: "string \<Rightarrow> string" where
  "toLowerCase s = map lowerChar s"

fun includesStr :: "string \<Rightarrow> string \<Rightarrow> bool" where
  \<comment> \<open>\<open>s.includes(t)\<close>: \<open>t\<close> occurs in \<open>s\<close> at some position\<close>
  "includesStr [] t = (t = [])"
| "includesStr (c # s) t = (take (length t) (c # s) = t \<or> includesStr s t)"

fun splitOn :: "char \<Rightarrow> string \<Rightarrow> string list" where
  \<comment> \<open>\<open>s.split(sep)\<close> for a one-character separator; the empty string gives one empty segment\<close>
  "splitOn sep [] = [[]]"
| "splitOn sep (c # s) =
     (if c = sep then [] # splitOn sep s
      else (case splitOn sep s of [] \<Rightarrow> [[c]] | x # xs \<Rightarrow> (c # x) # xs))"

fun joinWith :: "string \<Rightarrow> string list \<Rightarrow> string" where
  "joinWith sep [] = []"
| "joinWith sep [x] = x"
| "joinWith sep (x # y # ys) = x @ sep @ joinWith sep (y # ys)"

definition isDigit :: "char \<Rightarrow> bool" where
  \<comment> \<open>the regular-expression class \<open>\d\<close> (no unicode flag): 0-9\<close>
  "isDigit c = (48 \<le> (of_char c :: int) \<and> (of_char c :: int) \<le> 57)"

definition digitVal :: "char \<Rightarrow> int" where
  "digitVal c = of_char c - 48"

definition toNumber :: "string \<Rightarrow> int" where
  \<comment> \<open>ToNumber on a non-empty string of decimal digits\<close>
  "toNumber ds = foldl (\<lambda>acc c. 10 * acc + digitVal c) 0 ds"

definition hexVal :: "char \<Rightarrow> int option" where
  "hexVal c =
     (let n = (of_char c :: int) in
      if 48 \<le> n \<and> n \<le> 57 then Some (n - 48)
      else if 97 \<le> n \<and> n \<le> 102 then Some (n - 87)
      else if 65 \<le> n \<and> n \<le> 70 then Some (n - 55)
      else None)"

definition parseInt :: "string \<Rightarrow> int option" where
  \<comment> \<open>\<open>parseInt(s)\<close> without a radix; \<open>None\<close> is NaN.  Leading white space, a sign, an
      optional \<open>0x\<close> prefix (radix 16), then the longest run of digits; the rest is ignored.
      The value is an exact integer (the source only compares it with \<open>tasks.length\<close>).\<close>
  "parseInt input =
     (let s0 = dropWhile isWhiteSpace input;
          neg = (case s0 of c # _ \<Rightarrow> c = CHR ''-'' | [] \<Rightarrow> False);
          s1 = (case s0 of c # r \<Rightarrow> (if c = CHR ''-'' \<or> c = CHR ''+'' then r else s0) | [] \<Rightarrow> s0);
          hex = (case s1 of a # b # _ \<Rightarrow> a = CHR ''0'' \<and> (b = CHR ''x'' \<or> b = CHR ''X'') | _ \<Rightarrow> False);
          s2 = (if hex then drop 2 s1 else s1);
          ds = (if hex then takeWhile (\<lambda>c. hexVal c \<noteq> None) s2 else takeWhile isDigit s2);
          v = (if hex then foldl (\<lambda>acc c. 16 * acc + the (hexVal c)) 0 ds
               else foldl (\<lambda>acc c. 10 * acc + digitVal c) 0 ds)
      in if ds = [] then None else Some (if neg then - v else v))"

section \<open>The task list\<close>

record task =
  id' :: nat
  title :: string
  status :: string
  priority :: string
  dueDate :: string
  tags :: "string list"

definition addTask :: "string \<Rightarrow> string \<Rightarrow> string \<Rightarrow> string list \<Rightarrow> task list \<Rightarrow> task list" where
  "addTask ttl prio due tgs ts =
     ts @ [\<lparr>id' = length ts + 1, title = ttl, status = ''offen'', priority = prio,
            dueDate = due, tags = tgs\<rparr>]"

definition splice1 :: "int \<Rightarrow> 'a list \<Rightarrow> 'a list" where
  \<comment> \<open>\<open>xs.splice(index, 1)\<close>: a negative start counts from the end, the start is clamped to
      the list, and at most one element is removed\<close>
  "splice1 index xs =
     (let n = int (length xs);
          start = (if index < 0 then max (n + index) 0 else min index n)
      in take (nat start) xs @ drop (nat start + 1) xs)"

definition reindex :: "task list \<Rightarrow> task list" where
  \<comment> \<open>\<open>tasks.forEach((task, i) => { task.id = i + 1 })\<close>\<close>
  "reindex ts = map (\<lambda>(i, t). t\<lparr>id' := i + 1\<rparr>) (zip [0..<length ts] ts)"

definition deleteTask :: "int \<Rightarrow> task list \<Rightarrow> task list" where
  "deleteTask index ts = reindex (splice1 index ts)"

datatype fault = TypeError | Pending

definition at :: "'a list \<Rightarrow> int \<Rightarrow> 'a option" where
  \<comment> \<open>\<open>xs[i]\<close>: \<open>None\<close> is \<open>undefined\<close>\<close>
  "at xs i = (if 0 \<le> i \<and> i < int (length xs) then Some (xs ! nat i) else None)"

definition completeTask :: "int \<Rightarrow> task list \<Rightarrow> fault + task list" where
  \<comment> \<open>reading \<open>.status\<close> of \<open>undefined\<close> throws\<close>
  "completeTask index ts =
     (case at ts index of
        None \<Rightarrow> Inl TypeError
      | Some t \<Rightarrow>
          Inr (ts[nat index := t\<lparr>status := (if status t = ''erledigt'' then ''offen'' else ''erledigt'')\<rparr>]))"

definition filteredTasks :: "task list \<Rightarrow> string \<Rightarrow> task list" where
  \<comment> \<open>the filtered sequence of \<open>renderMainView\<close>\<close>
  "filteredTasks ts term =
     (if length term > 0
      then filter (\<lambda>t. includesStr (toLowerCase (title t)) (toLowerCase term)) ts
      else ts)"

definition containsCI :: "string \<Rightarrow> string \<Rightarrow> bool" where
  \<comment> \<open>the specification's words: the title contains the term as a case-insensitive substring\<close>
  "containsCI ttl term = (\<exists>pre post. toLowerCase ttl = pre @ toLowerCase term @ post)"

section \<open>Dates of the JavaScript runtime\<close>

text \<open>
  \<open>Date\<close> follows ECMA-262: a time value is a number of milliseconds since the epoch in
  UTC, \<open>None\<close> is the time value NaN of an invalid date.  The host's time zone is a
  constant offset, and the current year is what \<open>new Date().getFullYear()\<close> returns.
\<close>

record runtime =
  tzOffset :: int  \<comment> \<open>minutes that local time is ahead of UTC\<close>
  currentYear :: int

definition msPerDay :: int where
  "msPerDay = 86400000"

definition DayFromYear :: "int \<Rightarrow> int" where
  "DayFromYear y =
     365 * (y - 1970) + (y - 1969) div 4 - (y - 1901) div 100 + (y - 1601) div 400"

definition InLeapYear :: "int \<Rightarrow> bool" where
  "InLeapYear y = (DayFromYear (y + 1) - DayFromYear y = 366)"

definition monthStart :: "bool \<Rightarrow> int \<Rightarrow> int" where
  \<comment> \<open>the day within the year on which month \<open>mn\<close> (0 .. 11) starts\<close>
  "monthStart leap mn =
     [0, 31, 59, 90, 120, 151, 181, 212, 243, 273, 304, 334] ! nat mn
       + (if leap \<and> 2 \<le> mn then 1 else 0)"

definition MakeDay :: "int \<Rightarrow> int \<Rightarrow> int \<Rightarrow> int" where
  \<comment> \<open>months and days out of range carry over into the next month or year\<close>
  "MakeDay year month date =
     (let ym = year + month div 12; mn = month mod 12
      in DayFromYear ym + monthStart (InLeapYear ym) mn + date - 1)"

definition TimeClip :: "int \<Rightarrow> int option" where
  "TimeClip t = (if \<bar>t\<bar> \<le> 8640000000000000 then Some t else None)"

definition newDate :: "runtime \<Rightarrow> int \<Rightarrow> int \<Rightarrow> int \<Rightarrow> int option" where
  \<comment> \<open>\<open>new Date(year, month, date)\<close>: local midnight; a year 0 .. 99 means 1900 + year\<close>
  "newDate rt year month date =
     (let yr = (if 0 \<le> year \<and> year \<le> 99 then 1900 + year else year)
      in TimeClip (MakeDay yr month date * msPerDay - tzOffset rt * 60000))"

definition digitsBetween :: "nat \<Rightarrow> nat \<Rightarrow> string \<Rightarrow> bool" where
  \<comment> \<open>\<open>\d{lo,hi}\<close> against a whole segment\<close>
  "digitsBetween lo hi s = (lo \<le> length s \<and> length s \<le> hi \<and> list_all isDigit s)"

definition matchISO :: "string \<Rightarrow> bool" where
  \<comment> \<open>\<open>/^\d{4}-\d{2}-\d{2}$/\<close>\<close>
  "matchISO s =
     (case splitOn CHR ''-'' s of
        [y, m, d] \<Rightarrow> digitsBetween 4 4 y \<and> digitsBetween 2 2 m \<and> digitsBetween 2 2 d
      | _ \<Rightarrow> False)"

definition matchDMY :: "string \<Rightarrow> bool" where
  \<comment> \<open>\<open>/^\d{1,2}\.\d{1,2}\.\d{4}$/\<close>\<close>
  "matchDMY s =
     (case splitOn CHR ''.'' s of
        [d, m, y] \<Rightarrow> digitsBetween 1 2 d \<and> digitsBetween 1 2 m \<and> digitsBetween 4 4 y
      | _ \<Rightarrow> False)"

definition matchDM :: "string \<Rightarrow> bool" where
  \<comment> \<open>\<open>/^\d{1,2}\.\d{1,2}$/\<close>\<close>
  "matchDM s =
     (case splitOn CHR ''.'' s of
        [d, m] \<Rightarrow> digitsBetween 1 2 d \<and> digitsBetween 1 2 m
      | _ \<Rightarrow> False)"

definition dateFromISO :: "string \<Rightarrow> int option" where
  \<comment> \<open>\<open>new Date(s)\<close> on a string that matched \<open>matchISO\<close>: a date-only form is UTC.  Node's
      engine takes a month 01 .. 12 and a day 01 .. 31 and lets the day carry over.\<close>
  "dateFromISO s =
     (case splitOn CHR ''-'' s of
        [y, m, d] \<Rightarrow>
          (if 1 \<le> toNumber m \<and> toNumber m \<le> 12 \<and> 1 \<le> toNumber d \<and> toNumber d \<le> 31
           then TimeClip (MakeDay (toNumber y) (toNumber m - 1) (toNumber d) * msPerDay)
           else None)
      | _ \<Rightarrow> None)"

definition YearFromDay :: "int \<Rightarrow> int" where
  \<comment> \<open>the largest year that starts on or before the day\<close>
  "YearFromDay d =
     (let e = 1970 + (400 * d) div 146097
      in if DayFromYear (e + 1) \<le> d then e + 1
         else if DayFromYear e \<le> d then e
         else e - 1)"

definition MonthFromDay :: "int \<Rightarrow> int" where
  "MonthFromDay d =
     (let y = YearFromDay d; dwy = d - DayFromYear y
      in foldl (\<lambda>acc mn. if monthStart (InLeapYear y) mn \<le> dwy then mn else acc) 0 [1..11])"

definition DateFromDay :: "int \<Rightarrow> int" where
  "DateFromDay d =
     (let y = YearFromDay d
      in d - DayFromYear y - monthStart (InLeapYear y) (MonthFromDay d) + 1)"

definition padNum :: "nat \<Rightarrow> int \<Rightarrow> string" where
  \<comment> \<open>the last \<open>k\<close> decimal digits of \<open>n\<close>\<close>
  "padNum k n = map (\<lambda>i. char_of (48 + (n div 10 ^ i) mod 10)) (rev [0..<k])"

definition isoDate :: "int \<Rightarrow> string" where
  \<comment> \<open>\<open>d.toISOString().split('T')[0]\<close>; a year outside 0 .. 9999 has a sign and six digits\<close>
  "isoDate t =
     (let d = t div msPerDay; y = YearFromDay d
      in (if 0 \<le> y \<and> y \<le> 9999 then padNum 4 y
          else (if y < 0 then ''-'' else ''+'') @ padNum 6 \<bar>y\<bar>)
         @ ''-'' @ padNum 2 (MonthFromDay d + 1)
         @ ''-'' @ padNum 2 (DateFromDay d))"

definition parseDueDate :: "runtime \<Rightarrow> string \<Rightarrow> string option" where
  \<comment> \<open>the block of \<open>handleAddTask\<close> and \<open>handleEditTask\<close> from \<open>let parsedDate = null\<close> to the
      test \<open>parsedDate && !isNaN(parsedDate.getTime())\<close>; \<open>Some\<close> is the formatted date,
      \<open>None\<close> the branch that prints the warning.  \<open>parsedDate\<close> is \<open>None\<close> for \<open>null\<close>.\<close>
  "parseDueDate rt dateStr =
     (let parsedDate =
        (if matchISO dateStr then Some (dateFromISO dateStr)
         else if matchDMY dateStr then
           (case splitOn CHR ''.'' dateStr of
              [day, month, year] \<Rightarrow>
                Some (newDate rt (toNumber year) (toNumber month - 1) (toNumber day))
            | _ \<Rightarrow> None)
         else if matchDM dateStr then
           (case splitOn CHR ''.'' dateStr of
              [day, month] \<Rightarrow>
                Some (newDate rt (currentYear rt) (toNumber month - 1) (toNumber day))
            | _ \<Rightarrow> None)
         else None)
      in case parsedDate of
           Some (Some t) \<Rightarrow> Some (isoDate t)
         | _ \<Rightarrow> None)"

section \<open>The program state and the console\<close>

text \<open>
  The module's variables \<open>doc\<close>, \<open>tasks\<close>, \<open>selectedIndex\<close>, \<open>view\<close> and \<open>searchTerm\<close>,
  and the lines written to the console by the handlers.  The spreadsheet behind \<open>doc\<close>
  is its list of data rows, or \<open>Broken\<close> when every call on it is rejected.
\<close>

record row =
  rowTitle :: string
  rowStatus :: string
  rowPriority :: string
  rowDueDate :: string
  rowTags :: string

datatype sheet = Rows "row list" | Broken

datatype line =
    Goodbye
  | HelpText
  | NoConnectionLoad | Loaded nat | LoadFailed
  | NoConnectionSave | Saving | Saved nat | SaveFailed
  | Reloaded
  | QuickAddHeading | QuickAdded string
  | AbortedNoTitle
  | AddHeading | InvalidPriority string | DateIgnored string | Added string
  | PriorityInfo string | DueInfo string | TagsInfo "string list"
  | NothingToDelete | Deleted string
  | NothingToEdit | EditHeading string | EditHint | DateNotChanged string | Updated string
  | NothingToToggle | Marked string string
  | SearchHeading string | Searching string | SearchCleared
  | NoTaskSelected | DetailsBox task
  | Jumped int | InvalidTaskNumber | UnknownCommand string
  | ErrorLine

record state =
  doc :: "sheet option"
  tasks :: "task list"
  selectedIndex :: int
  view :: string
  searchTerm :: string
  console :: "line list"

definition say :: "line \<Rightarrow> state \<Rightarrow> state" where
  "say l s = s\<lparr>console := console s @ [l]\<rparr>"

definition orElse :: "string \<Rightarrow> string \<Rightarrow> string" where
  \<comment> \<open>\<open>a || b\<close> on strings: the empty string is falsy\<close>
  "orElse a b = (if a = [] then b else a)"

definition loadTasks :: "state \<Rightarrow> state" where
  "loadTasks s =
     (case doc s of
        None \<Rightarrow> say NoConnectionLoad s
      | Some Broken \<Rightarrow> say LoadFailed (s\<lparr>tasks := []\<rparr>)
      | Some (Rows rs) \<Rightarrow>
          say (Loaded (length rs))
            (s\<lparr>tasks :=
                 map (\<lambda>(index, r).
                        \<lparr>id' = index + 1,
                         title = orElse (rowTitle r) ''Keine Beschreibung'',
                         status = orElse (rowStatus r) ''offen'',
                         priority = orElse (rowPriority r) ''normal'',
                         dueDate = orElse (rowDueDate r) [],
                         tags = filter (\<lambda>tag. length (trim tag) > 0)
                                  (splitOn CHR '','' (orElse (rowTags r) []))\<rparr>)
                     (zip [0..<length rs] rs)\<rparr>))"

definition saveTasks :: "state \<Rightarrow> state" where
  "saveTasks s =
     (case doc s of
        None \<Rightarrow> say NoConnectionSave s
      | Some Broken \<Rightarrow> say SaveFailed (say Saving s)
      | Some (Rows rs) \<Rightarrow>
          say (Saved (length (tasks s)))
            (say Saving
              (s\<lparr>doc :=
                   Some (Rows (map (\<lambda>t. \<lparr>rowTitle = title t, rowStatus = status t,
                                          rowPriority = priority t, rowDueDate = dueDate t,
                                          rowTags = joinWith '','' (tags t)\<rparr>)
                                (tasks s)))\<rparr>)))"

section \<open>The main view's selection\<close>

definition mainViewSelected :: "state \<Rightarrow> string option" where
  \<comment> \<open>the line \<open>Ausgewaehlt\<close> of \<open>renderMainView\<close>: the title of
      \<open>filteredTasks[selectedIndex]\<close>, the row that is drawn highlighted\<close>
  "mainViewSelected s =
     (if length (tasks s) = 0 then None
      else let ft = filteredTasks (tasks s) (searchTerm s)
           in if length ft = 0 then None
              else Some (case at ft (selectedIndex s) of
                           None \<Rightarrow> ''Keine''
                         | Some t \<Rightarrow> orElse (title t) ''Keine''))"

definition renderDetailsView :: "state \<Rightarrow> fault + state" where
  "renderDetailsView s =
     (if length (tasks s) = 0 \<or> selectedIndex s \<ge> int (length (tasks s))
      then Inr (say NoTaskSelected s)
      else case at (tasks s) (selectedIndex s) of
             None \<Rightarrow> Inl TypeError
           | Some t \<Rightarrow> Inr (say (DetailsBox t) s))"

section \<open>The handlers\<close>

text \<open>
  A handler that asks questions takes the user's answers as arguments, in the order of
  its prompts.  An answer is not read when the handler returns before its prompt.
\<close>

definition validPriorities :: "string list" where
  "validPriorities = [''normal'', ''hoch'', ''niedrig'']"

definition parseTags :: "string \<Rightarrow> string list" where
  \<comment> \<open>\<open>s.split(',').map(tag => tag.trim()).filter(tag => tag.length > 0)\<close>\<close>
  "parseTags s = filter (\<lambda>tag. length tag > 0) (map trim (splitOn CHR '','' s))"

definition handleQuickAdd :: "string \<Rightarrow> state \<Rightarrow> state" where
  "handleQuickAdd ttl s =
     (let s0 = say QuickAddHeading s
      in if trim ttl \<noteq> []
         then say (QuickAdded (trim ttl))
                (s0\<lparr>tasks := addTask (trim ttl) ''normal'' [] [] (tasks s0)\<rparr>)
         else say AbortedNoTitle s0)"

definition handleAddTask :: "runtime \<Rightarrow> string \<Rightarrow> string \<Rightarrow> string \<Rightarrow> string \<Rightarrow> state \<Rightarrow> state" where
  "handleAddTask rt ttl prio due tgs s =
     (let s0 = say AddHeading s
      in if trim ttl = [] then say AbortedNoTitle s0
         else
           let taskPriority = orElse (toLowerCase (trim prio)) ''normal'';
               s1 = (if taskPriority \<notin> set validPriorities
                     then say (InvalidPriority prio) s0 else s0);
               (formattedDate, s2) =
                  (if trim due \<noteq> [] then
                     (case parseDueDate rt (trim due) of
                        Some d \<Rightarrow> (d, s1)
                      | None \<Rightarrow> ([], say (DateIgnored (trim due)) s1))
                   else ([], s1));
               taskTags = (if trim tgs \<noteq> [] then parseTags tgs else []);
               s3 = say (Added (trim ttl))
                      (s2\<lparr>tasks :=
                            addTask (trim ttl)
                              (if taskPriority \<in> set validPriorities then taskPriority else ''normal'')
                              formattedDate taskTags (tasks s2)\<rparr>);
               s4 = (if taskPriority \<noteq> ''normal'' then say (PriorityInfo taskPriority) s3 else s3);
               s5 = (if formattedDate \<noteq> [] then say (DueInfo formattedDate) s4 else s4)
           in if length taskTags > 0 then say (TagsInfo taskTags) s5 else s5)"

definition handleDeleteTask :: "state \<Rightarrow> state" where
  "handleDeleteTask s =
     (if length (tasks s) = 0 then say NothingToDelete s
      else if selectedIndex s \<ge> 0 \<and> selectedIndex s < int (length (tasks s)) then
        (let task = tasks s ! nat (selectedIndex s);
             ts = deleteTask (selectedIndex s) (tasks s)
         in say (Deleted (title task))
              (s\<lparr>tasks := ts, selectedIndex := min (selectedIndex s) (int (length ts) - 1)\<rparr>))
      else s)"

definition handleEditTask :: "runtime \<Rightarrow> string \<Rightarrow> string \<Rightarrow> string \<Rightarrow> string \<Rightarrow> state \<Rightarrow> fault + state" where
  \<comment> \<open>with \<open>tasks[selectedIndex]\<close> undefined the promise's executor throws and the promise
      is never settled\<close>
  "handleEditTask rt newTitle newPriority newDueDate newTags s =
     (if length (tasks s) = 0 \<or> selectedIndex s \<ge> int (length (tasks s))
      then Inr (say NothingToEdit s)
      else case at (tasks s) (selectedIndex s) of
        None \<Rightarrow> Inl Pending
      | Some task \<Rightarrow>
          let s0 = say EditHint (say (EditHeading (title task)) s);
              t1 = (if trim newTitle \<noteq> [] then task\<lparr>title := trim newTitle\<rparr> else task);
              t2 = (if trim newPriority \<noteq> [] \<and> toLowerCase (trim newPriority) \<in> set validPriorities
                    then t1\<lparr>priority := toLowerCase (trim newPriority)\<rparr> else t1);
              (t3, s1) =
                 (if trim newDueDate \<noteq> [] then
                    (if toLowerCase (trim newDueDate) = ''keine'' then (t2\<lparr>dueDate := []\<rparr>, s0)
                     else case parseDueDate rt (trim newDueDate) of
                            Some d \<Rightarrow> (t2\<lparr>dueDate := d\<rparr>, s0)
                          | None \<Rightarrow> (t2, say (DateNotChanged (trim newDueDate)) s0))
                  else (t2, s0));
              t4 = (if trim newTags \<noteq> [] then
                      (if toLowerCase (trim newTags) = ''keine'' then t3\<lparr>tags := []\<rparr>
                       else t3\<lparr>tags := parseTags newTags\<rparr>)
                    else t3)
          in Inr (say (Updated (title t4))
                    (s1\<lparr>tasks := (tasks s1)[nat (selectedIndex s) := t4]\<rparr>)))"

definition handleToggleTask :: "state \<Rightarrow> fault + state" where
  "handleToggleTask s =
     (if length (tasks s) = 0 \<or> selectedIndex s \<ge> int (length (tasks s))
      then Inr (say NothingToToggle s)
      else case completeTask (selectedIndex s) (tasks s) of
             Inl e \<Rightarrow> Inl e
           | Inr ts \<Rightarrow>
               (let task = ts ! nat (selectedIndex s)
                in Inr (say (Marked (title task) (status task)) (s\<lparr>tasks := ts\<rparr>))))"

definition handleSearch :: "string \<Rightarrow> state \<Rightarrow> state" where
  "handleSearch term s =
     (let s0 = say (SearchHeading (orElse (searchTerm s) ''keine'')) s;
          s1 = s0\<lparr>searchTerm := trim term\<rparr>
      in if searchTerm s1 \<noteq> [] then say (Searching (searchTerm s1)) s1
         else say SearchCleared s1)"

section \<open>The command interpreter\<close>

text \<open>
  One turn of \<open>handleCommand\<close>.  After the command the source redraws the main view and
  asks for the next line; the redraw changes no variable and is left out, so the
  console holds the lines of the handlers only.  \<open>Exit\<close> is \<open>process.exit(0)\<close>, and
  \<open>Stalled\<close> is a turn whose promise is never settled, so that no prompt follows.
\<close>

datatype outcome = Prompt state | Exit state | Stalled state

definition caught :: "fault + state \<Rightarrow> state \<Rightarrow> outcome" where
  \<comment> \<open>the \<open>try\<close>/\<open>catch\<close> of \<open>handleCommand\<close>: a thrown error is printed and the prompt
      comes back; a promise that is never settled leaves the turn unfinished\<close>
  "caught r s =
     (case r of
        Inr s' \<Rightarrow> Prompt s'
      | Inl TypeError \<Rightarrow> Prompt (say ErrorLine s)
      | Inl Pending \<Rightarrow> Stalled s)"

definition handleCommand :: "runtime \<Rightarrow> string \<Rightarrow> (nat \<Rightarrow> string) \<Rightarrow> state \<Rightarrow> outcome" where
  \<comment> \<open>\<open>ans k\<close> is the line the user types at the \<open>k\<close>-th question of the turn\<close>
  "handleCommand rt input ans s =
     (let command = toLowerCase (trim input)
      in if command \<in> set [''quit'', ''q'', ''exit''] then Exit (say Goodbye s)
         else if command \<in> set [''help'', ''h''] then Prompt (say HelpText s)
         else if command \<in> set [''add'', ''a''] then
           Prompt (handleAddTask rt (ans 0) (ans 1) (ans 2) (ans 3) s)
         else if command \<in> set [''quick'', ''qa''] then Prompt (handleQuickAdd (ans 0) s)
         else if command \<in> set [''delete'', ''d''] then Prompt (handleDeleteTask s)
         else if command \<in> set [''edit'', ''e''] then
           caught (handleEditTask rt (ans 0) (ans 1) (ans 2) (ans 3) s) s
         else if command \<in> set [''toggle'', ''t'', ''space''] then caught (handleToggleTask s) s
         else if command \<in> set [''save'', ''s''] then Prompt (saveTasks s)
         else if command \<in> set [''reload'', ''r''] then Prompt (say Reloaded (loadTasks s))
         else if command \<in> set [''search'', ''/''] then Prompt (handleSearch (ans 0) s)
         else if command \<in> set [''details'', ''show''] then caught (renderDetailsView s) s
         else if command \<in> set [''up'', ''k''] then
           Prompt (s\<lparr>selectedIndex := max 0 (selectedIndex s - 1)\<rparr>)
         else if command \<in> set [''down'', ''j''] then
           Prompt (s\<lparr>selectedIndex := min (int (length (tasks s)) - 1) (selectedIndex s + 1)\<rparr>)
         else if command = ''home'' then Prompt (s\<lparr>selectedIndex := 0\<rparr>)
         else if command = ''end'' then
           Prompt (s\<lparr>selectedIndex := max 0 (int (length (tasks s)) - 1)\<rparr>)
         else if command = ''clear'' then Prompt (say SearchCleared (s\<lparr>searchTerm := []\<rparr>))
         else if trim input = [] then Prompt s
         else case parseInt command of
                Some n \<Rightarrow>
                  (let num = n - 1
                   in if num \<ge> 0 \<and> num < int (length (tasks s))
                      then Prompt (say (Jumped (num + 1)) (s\<lparr>selectedIndex := num\<rparr>))
                      else Prompt (say InvalidTaskNumber s))
              | None \<Rightarrow> Prompt (say (UnknownCommand input) s))"

section \<open>Sequences of operations, the selection invariant, sample states\<close>

datatype op = Add string string string "string list" | Delete int

fun applyOps :: "op list \<Rightarrow> task list \<Rightarrow> task list" where
  \<comment> \<open>a sequence of calls of \<open>addTask\<close> and \<open>deleteTask\<close>\<close>
  "applyOps [] ts = ts"
| "applyOps (Add ttl prio due tgs # ops) ts = applyOps ops (addTask ttl prio due tgs ts)"
| "applyOps (Delete i # ops) ts = applyOps ops (deleteTask i ts)"

definition selectionInvariant :: "state \<Rightarrow> bool" where
  \<comment> \<open>the specification's words: with \<open>L\<close> the length of the filtered sequence,
      \<open>0 <= selectedIndex <= L - 1\<close>, and anything when \<open>L\<close> is 0\<close>
  "selectionInvariant s =
     (let L = int (length (filteredTasks (tasks s) (searchTerm s)))
      in L = 0 \<or> (0 \<le> selectedIndex s \<and> selectedIndex s \<le> L - 1))"

abbreviation taskAlpha :: task where
  "taskAlpha \<equiv> \<lparr>id' = 1, title = ''Alpha'', status = ''offen'', priority = ''normal'',
                 dueDate = [], tags = []\<rparr>"

abbreviation taskBeta :: task where
  "taskBeta \<equiv> \<lparr>id' = 2, title = ''Beta'', status = ''offen'', priority = ''normal'',
                dueDate = [], tags = []\<rparr>"

abbreviation taskRent :: task where
  "taskRent \<equiv> \<lparr>id' = 1, title = ''Pay rent'', status = ''offen'', priority = ''hoch'',
                dueDate = ''2024-03-01'', tags = [''bills'']\<rparr>"

abbreviation listing :: "task list \<Rightarrow> int \<Rightarrow> string \<Rightarrow> state" where
  "listing ts sel term \<equiv>
     \<lparr>doc = None, tasks = ts, selectedIndex = sel, view = ''main'', searchTerm = term,
      console = []\<rparr>"

abbreviation utc :: runtime where
  "utc \<equiv> \<lparr>tzOffset = 0, currentYear = 2024\<rparr>"

abbreviation berlin :: runtime where
  "berlin \<equiv> \<lparr>tzOffset = 60, currentYear = 2024\<rparr>"

section \<open>Auxiliary facts\<close>

lemma say_fields [simp]:
  "tasks (say l s) = tasks s" "selectedIndex (say l s) = selectedIndex s"
  "searchTerm (say l s) = searchTerm s" "console (say l s) = console s @ [l]"
  by (simp_all add: say_def)

lemma includesStr_iff: "includesStr s t \<longleftrightarrow> (\<exists>pre post. s = pre @ t @ post)"
proof (induction s)
  case Nil
  show ?case by auto
next
  case (Cons c s)
  show ?case
  proof
    assume "includesStr (c # s) t"
    then consider "take (length t) (c # s) = t" | "includesStr s t" by auto
    then show "\<exists>pre post. c # s = pre @ t @ post"
    proof cases
      case 1
      then have "c # s = [] @ t @ drop (length t) (c # s)"
        by (metis append_Nil append_take_drop_id)
      then show ?thesis by blast
    next
      case 2
      with Cons.IH obtain pre post where "s = pre @ t @ post" by blast
      then have "c # s = (c # pre) @ t @ post" by simp
      then show ?thesis by blast
    qed
  next
    assume "\<exists>pre post. c # s = pre @ t @ post"
    then obtain pre post where eq: "c # s = pre @ t @ post" by blast
    show "includesStr (c # s) t"
    proof (cases pre)
      case Nil
      with eq have "take (length t) (c # s) = t" by simp
      then show ?thesis by simp
    next
      case (Cons a pre')
      with eq have "s = pre' @ t @ post" by simp
      with Cons.IH have "includesStr s t" by blast
      then show ?thesis by simp
    qed
  qed
qed

lemma length_reindex: "length (reindex ts) = length ts"
  by (simp add: reindex_def)

lemma nth_reindex: "k < length ts \<Longrightarrow> reindex ts ! k = (ts ! k)\<lparr>id' := k + 1\<rparr>"
  by (simp add: reindex_def)

lemma splice1_in_range:
  "0 \<le> i \<Longrightarrow> i < int (length xs) \<Longrightarrow> splice1 i xs = take (nat i) xs @ drop (nat i + 1) xs"
  by (simp add: splice1_def Let_def min_def)

lemma length_deleteTask_in_range:
  "0 \<le> i \<Longrightarrow> i < int (length ts) \<Longrightarrow> length (deleteTask i ts) = length ts - 1"
  by (auto simp add: deleteTask_def length_reindex splice1_in_range)

lemma handleAddTask_aborted:
  "trim ttl = [] \<Longrightarrow>
     handleAddTask rt ttl prio due tgs s = s\<lparr>console := console s @ [AddHeading, AbortedNoTitle]\<rparr>"
  by (simp add: handleAddTask_def say_def)

lemma handleAddTask_appends:
  "trim ttl \<noteq> [] \<Longrightarrow>
     \<exists>t. tasks (handleAddTask rt ttl prio due tgs s) = tasks s @ [t] \<and>
         id' t = length (tasks s) + 1 \<and> status t = ''offen'' \<and> title t = trim ttl"
  by (simp add: handleAddTask_def Let_def addTask_def split: option.splits prod.splits)

lemma handleAddTask_selectedIndex:
  "selectedIndex (handleAddTask rt ttl prio due tgs s) = selectedIndex s"
  by (simp add: handleAddTask_def Let_def split: option.splits prod.splits)

lemma handleQuickAdd_aborted:
  "trim ttl = [] \<Longrightarrow>
     handleQuickAdd ttl s = s\<lparr>console := console s @ [QuickAddHeading, AbortedNoTitle]\<rparr>"
  by (simp add: handleQuickAdd_def say_def)

lemma handleQuickAdd_appends:
  "trim ttl \<noteq> [] \<Longrightarrow>
     handleQuickAdd ttl s =
       s\<lparr>tasks := tasks s @ [\<lparr>id' = length (tasks s) + 1, title = trim ttl, status = ''offen'',
                              priority = ''normal'', dueDate = [], tags = []\<rparr>],
         console := console s @ [QuickAddHeading, QuickAdded (trim ttl)]\<rparr>"
  by (simp add: handleQuickAdd_def say_def addTask_def Let_def)

lemma handleAddTask_length:
  "length (tasks s) \<le> length (tasks (handleAddTask rt ttl prio due tgs s))"
proof (cases "trim ttl = []")
  case True
  then show ?thesis by (simp add: handleAddTask_aborted)
next
  case False
  from handleAddTask_appends [OF False, of rt prio due tgs s] show ?thesis by auto
qed

lemma handleQuickAdd_length:
  "length (tasks s) \<le> length (tasks (handleQuickAdd ttl s))"
  by (cases "trim ttl = []") (simp_all add: handleQuickAdd_aborted handleQuickAdd_appends)

lemma handleQuickAdd_selectedIndex:
  "selectedIndex (handleQuickAdd ttl s) = selectedIndex s"
  by (cases "trim ttl = []") (simp_all add: handleQuickAdd_aborted handleQuickAdd_appends)

lemma handleSearch_keeps:
  "selectedIndex (handleSearch term s) = selectedIndex s" "tasks (handleSearch term s) = tasks s"
  by (simp_all add: handleSearch_def Let_def)

lemma handleDeleteTask_bound:
  assumes "0 \<le> selectedIndex s" and "selectedIndex s \<le> max 0 (int (length (tasks s)) - 1)"
    and "tasks (handleDeleteTask s) \<noteq> []"
  shows "0 \<le> selectedIndex (handleDeleteTask s) \<and>
         selectedIndex (handleDeleteTask s) \<le> int (length (tasks (handleDeleteTask s))) - 1"
proof (cases "length (tasks s) = 0")
  case True
  with assms(3) show ?thesis by (simp add: handleDeleteTask_def)
next
  case False
  with assms(1,2) have r: "0 \<le> selectedIndex s" "selectedIndex s < int (length (tasks s))"
    by auto
  with False have eq: "tasks (handleDeleteTask s) = deleteTask (selectedIndex s) (tasks s)"
    "selectedIndex (handleDeleteTask s) =
       min (selectedIndex s) (int (length (deleteTask (selectedIndex s) (tasks s))) - 1)"
    by (simp_all add: handleDeleteTask_def Let_def)
  from assms(3) eq(1) have "length (deleteTask (selectedIndex s) (tasks s)) \<noteq> 0" by simp
  with eq r show ?thesis by auto
qed

lemma past_filtered_view_shows_none:
  assumes "filteredTasks (tasks v) (searchTerm v) \<noteq> []"
    and "int (length (filteredTasks (tasks v) (searchTerm v))) \<le> selectedIndex v"
  shows "mainViewSelected v = Some ''Keine''"
proof -
  from assms(1) have "tasks v \<noteq> []"
    by (auto simp add: filteredTasks_def split: if_splits)
  with assms show ?thesis
    by (simp add: mainViewSelected_def Let_def at_def)
qed

section \<open>Selection and the search filter\<close>

text \<open>
  C1.  The claim: while a search term is active, \<open>selectedIndex\<close> addresses the filtered
  sequence, so delete, edit, toggle and the details view act on the
  \<open>selectedIndex\<close>-th matching task, and a jump to \<open>n\<close> is accepted only for
  \<open>1 <= n <= filteredLength\<close>.  The main view does read the selection that way, the
  handlers do not: with the tasks Alpha and Beta, the search term \<open>bet\<close> and
  \<open>selectedIndex = 0\<close>, the main view shows Beta as selected, while delete removes Alpha,
  toggle marks Alpha and the details view shows Alpha; with the search term \<open>alp\<close> the
  filtered sequence has one element and the input \<open>2\<close> is accepted and moves the
  selection to index 1.
\<close>

theorem selection_ignores_filter:
  "filteredTasks [taskAlpha, taskBeta] ''bet'' = [taskBeta] \<and>
   mainViewSelected (listing [taskAlpha, taskBeta] 0 ''bet'') = Some ''Beta'' \<and>
   handleDeleteTask (listing [taskAlpha, taskBeta] 0 ''bet'') =
     \<lparr>doc = None, tasks = [taskBeta\<lparr>id' := 1\<rparr>], selectedIndex = 0, view = ''main'',
      searchTerm = ''bet'', console = [Deleted ''Alpha'']\<rparr> \<and>
   handleToggleTask (listing [taskAlpha, taskBeta] 0 ''bet'') =
     Inr \<lparr>doc = None, tasks = [taskAlpha\<lparr>status := ''erledigt''\<rparr>, taskBeta], selectedIndex = 0,
          view = ''main'', searchTerm = ''bet'', console = [Marked ''Alpha'' ''erledigt'']\<rparr> \<and>
   renderDetailsView (listing [taskAlpha, taskBeta] 0 ''bet'') =
     Inr \<lparr>doc = None, tasks = [taskAlpha, taskBeta], selectedIndex = 0,
          view = ''main'', searchTerm = ''bet'', console = [DetailsBox taskAlpha]\<rparr> \<and>
   filteredTasks [taskAlpha, taskBeta] ''alp'' = [taskAlpha] \<and>
   handleCommand utc ''2'' (\<lambda>k. []) (listing [taskAlpha, taskBeta] 0 ''alp'') =
     Prompt \<lparr>doc = None, tasks = [taskAlpha, taskBeta], selectedIndex = 1, view = ''main'',
             searchTerm = ''alp'', console = [Jumped 2]\<rparr>"
  by code_simp

text \<open>
  C2, as stated.  The claim: after add, delete or a change of the search term,
  \<open>0 <= selectedIndex <= filteredLength - 1\<close> unless the filtered sequence is empty.
  It fails: with the tasks Alpha and Beta and the second one selected, the search term
  \<open>alp\<close> leaves one matching task and \<open>selectedIndex = 1\<close>.
\<close>

theorem selection_invariant_counterexample:
  "selectionInvariant (listing [taskAlpha, taskBeta] 1 []) \<and>
   selectedIndex (handleSearch ''alp'' (listing [taskAlpha, taskBeta] 1 [])) = 1 \<and>
   filteredTasks (tasks (handleSearch ''alp'' (listing [taskAlpha, taskBeta] 1 [])))
     (searchTerm (handleSearch ''alp'' (listing [taskAlpha, taskBeta] 1 []))) = [taskAlpha] \<and>
   \<not> selectionInvariant (handleSearch ''alp'' (listing [taskAlpha, taskBeta] 1 []))"
  by code_simp

text \<open>
  C2, amended.  From a state whose selection is not negative and lies inside the task
  list (or is 0 on the empty list), after delete, add, quick add or a change of the
  search term the selection lies inside the full task list whenever that list is not
  empty: the bound is the length of the task list, not of the filtered sequence.  Add
  and search leave \<open>selectedIndex\<close> as it is.  Where \<open>selectedIndex\<close> lies past the end
  of a non-empty filtered sequence, the main view shows \<open>Keine\<close> as the selection.
\<close>

theorem selection_within_task_list:
  assumes "0 \<le> selectedIndex s" and "selectedIndex s \<le> max 0 (int (length (tasks s)) - 1)"
  shows
    "(tasks (handleDeleteTask s) \<noteq> [] \<longrightarrow>
        0 \<le> selectedIndex (handleDeleteTask s) \<and>
        selectedIndex (handleDeleteTask s) \<le> int (length (tasks (handleDeleteTask s))) - 1) \<and>
     selectedIndex (handleAddTask rt ttl prio due tgs s) = selectedIndex s \<and>
     (tasks (handleAddTask rt ttl prio due tgs s) \<noteq> [] \<longrightarrow>
        selectedIndex s \<le> int (length (tasks (handleAddTask rt ttl prio due tgs s))) - 1) \<and>
     selectedIndex (handleQuickAdd ttl s) = selectedIndex s \<and>
     (tasks (handleQuickAdd ttl s) \<noteq> [] \<longrightarrow>
        selectedIndex s \<le> int (length (tasks (handleQuickAdd ttl s))) - 1) \<and>
     selectedIndex (handleSearch term s) = selectedIndex s \<and>
     tasks (handleSearch term s) = tasks s \<and>
     (tasks s \<noteq> [] \<longrightarrow> selectedIndex s \<le> int (length (tasks s)) - 1) \<and>
     (\<forall>v. filteredTasks (tasks v) (searchTerm v) \<noteq> [] \<and>
          int (length (filteredTasks (tasks v) (searchTerm v))) \<le> selectedIndex v \<longrightarrow>
          mainViewSelected v = Some ''Keine'')"
proof -
  have d: "tasks (handleDeleteTask s) \<noteq> [] \<longrightarrow>
        0 \<le> selectedIndex (handleDeleteTask s) \<and>
        selectedIndex (handleDeleteTask s) \<le> int (length (tasks (handleDeleteTask s))) - 1"
    using handleDeleteTask_bound [OF assms] by blast
  have a: "tasks (handleAddTask rt ttl prio due tgs s) \<noteq> [] \<longrightarrow>
        selectedIndex s \<le> int (length (tasks (handleAddTask rt ttl prio due tgs s))) - 1"
    using assms handleAddTask_length [of s rt ttl prio due tgs]
    by (auto simp add: max_def split: if_splits)
  have q: "tasks (handleQuickAdd ttl s) \<noteq> [] \<longrightarrow>
        selectedIndex s \<le> int (length (tasks (handleQuickAdd ttl s))) - 1"
    using assms handleQuickAdd_length [of s ttl] by (auto simp add: max_def split: if_splits)
  have t: "tasks s \<noteq> [] \<longrightarrow> selectedIndex s \<le> int (length (tasks s)) - 1"
    using assms by (auto simp add: max_def split: if_splits)
  show ?thesis
    using d a q t handleAddTask_selectedIndex [of rt ttl prio due tgs s]
      handleQuickAdd_selectedIndex [of ttl s] handleSearch_keeps [of "term" s]
      past_filtered_view_shows_none
    by blast
qed

theorem selection_within_task_list_witness:
  "0 \<le> selectedIndex (listing [taskAlpha, taskBeta] 1 []) \<and>
   selectedIndex (listing [taskAlpha, taskBeta] 1 [])
     \<le> max 0 (int (length (tasks (listing [taskAlpha, taskBeta] 1 []))) - 1) \<and>
   tasks (handleDeleteTask (listing [taskAlpha, taskBeta] 1 [])) \<noteq> [] \<and>
   0 \<le> selectedIndex (handleDeleteTask (listing [taskAlpha, taskBeta] 1 [])) \<and>
   selectedIndex (handleDeleteTask (listing [taskAlpha, taskBeta] 1 []))
     \<le> int (length (tasks (handleDeleteTask (listing [taskAlpha, taskBeta] 1 [])))) - 1 \<and>
   selectedIndex (handleSearch ''alp'' (listing [taskAlpha, taskBeta] 1 [])) = 1 \<and>
   mainViewSelected (handleSearch ''alp'' (listing [taskAlpha, taskBeta] 1 [])) = Some ''Keine''"
proof -
  have h1: "0 \<le> selectedIndex (listing [taskAlpha, taskBeta] 1 [])" by simp
  have h2: "selectedIndex (listing [taskAlpha, taskBeta] 1 [])
     \<le> max 0 (int (length (tasks (listing [taskAlpha, taskBeta] 1 []))) - 1)" by simp
  have ne: "tasks (handleDeleteTask (listing [taskAlpha, taskBeta] 1 [])) \<noteq> []"
    by code_simp
  have past: "filteredTasks (tasks (handleSearch ''alp'' (listing [taskAlpha, taskBeta] 1 [])))
        (searchTerm (handleSearch ''alp'' (listing [taskAlpha, taskBeta] 1 []))) \<noteq> [] \<and>
      int (length (filteredTasks (tasks (handleSearch ''alp'' (listing [taskAlpha, taskBeta] 1 [])))
        (searchTerm (handleSearch ''alp'' (listing [taskAlpha, taskBeta] 1 []))))) \<le>
      selectedIndex (handleSearch ''alp'' (listing [taskAlpha, taskBeta] 1 []))"
    by code_simp
  note th = selection_within_task_list [OF h1 h2, of utc "[]" "[]" "[]" "[]" "''alp''"]
  from th ne have del: "0 \<le> selectedIndex (handleDeleteTask (listing [taskAlpha, taskBeta] 1 [])) \<and>
   selectedIndex (handleDeleteTask (listing [taskAlpha, taskBeta] 1 []))
     \<le> int (length (tasks (handleDeleteTask (listing [taskAlpha, taskBeta] 1 [])))) - 1"
    by blast
  from th have sel: "selectedIndex (handleSearch ''alp'' (listing [taskAlpha, taskBeta] 1 [])) = 1"
    by simp
  from th past have shown:
    "mainViewSelected (handleSearch ''alp'' (listing [taskAlpha, taskBeta] 1 [])) = Some ''Keine''"
    by blast
  from h1 h2 ne del sel shown show ?thesis by blast
qed

text \<open>
  Deleting the only task is outside the statement above: \<open>handleDeleteTask\<close> takes the
  minimum with \<open>tasks.length - 1\<close> and leaves \<open>selectedIndex = -1\<close> on the empty list.
\<close>

lemma delete_only_task_leaves_minus_one:
  "handleDeleteTask (listing [taskAlpha] 0 []) =
     \<lparr>doc = None, tasks = [], selectedIndex = - 1, view = ''main'', searchTerm = [],
      console = [Deleted ''Alpha'']\<rparr>"
  by code_simp

section \<open>Deleting renumbers the tasks\<close>

text \<open>
  C3.  For every list \<open>ts\<close> that a sequence of add and delete operations produces (from
  any starting list), after a further delete the ids are dense and 1-based:
  \<open>tasks[k].id = k + 1\<close> for every index \<open>k\<close>.  For an index in range the delete removes
  exactly the record at that index: the list is one shorter and every remaining record
  is the old one, in the old order, with its id set to its new position.
\<close>

theorem delete_ids_dense:
  fixes ops :: "op list" and start :: "task list" and i :: int
  defines "ts \<equiv> applyOps ops start"
  shows "(\<forall>k < length (deleteTask i ts). id' (deleteTask i ts ! k) = k + 1) \<and>
         (0 \<le> i \<and> i < int (length ts) \<longrightarrow>
            length (deleteTask i ts) = length ts - 1 \<and>
            (\<forall>k < length ts - 1.
               deleteTask i ts ! k = (if k < nat i then ts ! k else ts ! (k + 1))\<lparr>id' := k + 1\<rparr>))"
proof (intro conjI allI impI)
  fix k assume "k < length (deleteTask i ts)"
  then show "id' (deleteTask i ts ! k) = k + 1"
    by (simp add: deleteTask_def length_reindex nth_reindex)
next
  assume r: "0 \<le> i \<and> i < int (length ts)"
  then show "length (deleteTask i ts) = length ts - 1"
    by (simp add: length_deleteTask_in_range)
next
  fix k assume r: "0 \<le> i \<and> i < int (length ts)" and k: "k < length ts - 1"
  from r have sp: "splice1 i ts = take (nat i) ts @ drop (nat i + 1) ts"
    by (simp add: splice1_in_range)
  from r k have len: "k < length (splice1 i ts)" unfolding sp by auto
  from r k have "splice1 i ts ! k = (if k < nat i then ts ! k else ts ! (k + 1))"
    unfolding sp by (auto simp add: nth_append)
  with len show "deleteTask i ts ! k = (if k < nat i then ts ! k else ts ! (k + 1))\<lparr>id' := k + 1\<rparr>"
    by (simp add: deleteTask_def nth_reindex)
qed

theorem delete_ids_dense_witness:
  "(0::int) \<le> 0 \<and>
   (0::int) < int (length (applyOps [Add ''Buy milk'' ''normal'' [] [],
                                     Add ''Pay rent'' ''hoch'' ''2024-03-01'' [''bills'']] [])) \<and>
   length (deleteTask 0 (applyOps [Add ''Buy milk'' ''normal'' [] [],
                                   Add ''Pay rent'' ''hoch'' ''2024-03-01'' [''bills'']] [])) = 1 \<and>
   deleteTask 0 (applyOps [Add ''Buy milk'' ''normal'' [] [],
                           Add ''Pay rent'' ''hoch'' ''2024-03-01'' [''bills'']] []) ! 0 = taskRent"
proof -
  have run: "applyOps [Add ''Buy milk'' ''normal'' [] [],
                       Add ''Pay rent'' ''hoch'' ''2024-03-01'' [''bills'']] [] =
             [\<lparr>id' = 1, title = ''Buy milk'', status = ''offen'', priority = ''normal'',
               dueDate = [], tags = []\<rparr>, taskRent\<lparr>id' := 2\<rparr>]"
    by (simp add: addTask_def)
  show ?thesis
    using delete_ids_dense [of 0 "[Add ''Buy milk'' ''normal'' [] [],
                                   Add ''Pay rent'' ''hoch'' ''2024-03-01'' [''bills'']]" "[]"]
    unfolding run by simp
qed

section \<open>Due dates\<close>

text \<open>
  C4.  The claim: a due date that names no calendar date, such as \<open>31.02.2024\<close> or
  \<open>13.13.2024\<close>, is rejected with a warning, and an accepted date is stored as the same
  calendar date.  The handlers test \<open>parsedDate && !isNaN(parsedDate.getTime())\<close>, but
  \<open>new Date(year, month - 1, day)\<close> carries a day or month out of range over and never
  gives an invalid date: on a host in UTC \<open>31.02.2024\<close> is stored as \<open>2024-03-02\<close> and
  \<open>13.13.2024\<close> as \<open>2025-01-13\<close>, with no warning on the console.  The date is built at
  local midnight and printed in UTC, so on a host one hour ahead of UTC \<open>1.3.2024\<close> is
  stored as \<open>2024-02-29\<close>.
\<close>

theorem invalid_dates_roll_over:
  "parseDueDate utc ''31.02.2024'' = Some ''2024-03-02'' \<and>
   parseDueDate utc ''13.13.2024'' = Some ''2025-01-13'' \<and>
   handleAddTask utc ''Milk'' [] ''31.02.2024'' [] (listing [] 0 []) =
     \<lparr>doc = None,
      tasks = [\<lparr>id' = 1, title = ''Milk'', status = ''offen'', priority = ''normal'',
                dueDate = ''2024-03-02'', tags = []\<rparr>],
      selectedIndex = 0, view = ''main'', searchTerm = [],
      console = [AddHeading, Added ''Milk'', DueInfo ''2024-03-02'']\<rparr> \<and>
   handleEditTask utc [] [] ''13.13.2024'' [] (listing [taskRent] 0 []) =
     Inr \<lparr>doc = None, tasks = [taskRent\<lparr>dueDate := ''2025-01-13''\<rparr>],
          selectedIndex = 0, view = ''main'', searchTerm = [],
          console = [EditHeading ''Pay rent'', EditHint, Updated ''Pay rent'']\<rparr> \<and>
   parseDueDate berlin ''1.3.2024'' = Some ''2024-02-29''"
  by code_simp

text \<open>
  On the same host the three formats give the canonical form of the date entered, and
  input of another shape, or an ISO month out of range, takes the warning branch.
\<close>

lemma due_date_samples:
  "parseDueDate utc ''2024-02-29'' = Some ''2024-02-29''"
  "parseDueDate utc ''29.2.2024'' = Some ''2024-02-29''"
  "parseDueDate utc ''1.3'' = Some ''2024-03-01''"
  "parseDueDate utc ''1.1.1970'' = Some ''1970-01-01''"
  "parseDueDate utc ''31.12.1999'' = Some ''1999-12-31''"
  "parseDueDate utc ''2024-13-01'' = None"
  "parseDueDate utc ''1.2.24'' = None"
  "parseDueDate utc ''morgen'' = None"
  by code_simp+

section \<open>The search filter\<close>

text \<open>
  C5.  Filtering with the empty search term returns the task list itself: the same
  tasks, in the same order.
\<close>

theorem filter_empty_term_identity:
  "filteredTasks ts [] = ts"
  by (simp add: filteredTasks_def)

text \<open>
  C6.  For a non-empty search term the filtered sequence is the task list restricted,
  in order, to the tasks whose title contains the term as a case-insensitive substring:
  every task kept has such a title, no task dropped has one, and only the title is
  looked at.
\<close>

theorem filter_is_ci_subsequence:
  "term \<noteq> [] \<Longrightarrow> filteredTasks ts term = filter (\<lambda>t. containsCI (title t) term) ts"
  by (simp add: filteredTasks_def containsCI_def includesStr_iff)

theorem filter_is_ci_subsequence_witness:
  "''alp'' \<noteq> [] \<and>
   filter (\<lambda>t. containsCI (title t) ''alp'') [taskAlpha, taskBeta] = [taskAlpha]"
proof -
  have ne: "''alp'' \<noteq> []" by simp
  have run: "filteredTasks [taskAlpha, taskBeta] ''alp'' = [taskAlpha]"
    by code_simp
  have "filter (\<lambda>t. containsCI (title t) ''alp'') [taskAlpha, taskBeta]
          = filteredTasks [taskAlpha, taskBeta] ''alp''"
    by (rule filter_is_ci_subsequence [OF ne, symmetric])
  with run ne show ?thesis by simp
qed

section \<open>Toggling the status\<close>

text \<open>
  C7.  Toggling a task whose status is \<open>offen\<close> sets it to \<open>erledigt\<close>, and toggling it
  again gives back the list as it was; the first toggle changes nothing but the status
  of that one task.
\<close>

theorem toggle_involution:
  assumes "i < length ts" and "status (ts ! i) = ''offen''"
  shows "completeTask (int i) ts = Inr (ts[i := (ts ! i)\<lparr>status := ''erledigt''\<rparr>]) \<and>
         completeTask (int i) (ts[i := (ts ! i)\<lparr>status := ''erledigt''\<rparr>]) = Inr ts"
  using assms by (simp add: completeTask_def at_def list_update_same_conv)

theorem toggle_involution_witness:
  "(1::nat) < length [taskAlpha, taskBeta] \<and>
   status ([taskAlpha, taskBeta] ! 1) = ''offen'' \<and>
   completeTask 1 [taskAlpha, taskBeta] = Inr [taskAlpha, taskBeta\<lparr>status := ''erledigt''\<rparr>] \<and>
   completeTask 1 [taskAlpha, taskBeta\<lparr>status := ''erledigt''\<rparr>] = Inr [taskAlpha, taskBeta]"
proof -
  have h1: "(1::nat) < length [taskAlpha, taskBeta]" by simp
  have h2: "status ([taskAlpha, taskBeta] ! 1) = ''offen''" by simp
  from toggle_involution [OF h1 h2] h1 h2 show ?thesis by simp
qed

section \<open>Adding tasks\<close>

text \<open>
  C8.  Add and quick add with a title that is empty after trimming print the
  \<open>aborted, no title\<close> warning and change nothing else: the task list is as before.
  With any other title, one record is appended with id \<open>length + 1\<close>, status \<open>offen\<close>
  and the trimmed title, and the records already there are unchanged.
\<close>

theorem add_requires_title:
  "(trim ttl = [] \<longrightarrow>
      handleAddTask rt ttl prio due tgs s = s\<lparr>console := console s @ [AddHeading, AbortedNoTitle]\<rparr> \<and>
      handleQuickAdd ttl s = s\<lparr>console := console s @ [QuickAddHeading, AbortedNoTitle]\<rparr>) \<and>
   (trim ttl \<noteq> [] \<longrightarrow>
      (\<exists>t. tasks (handleAddTask rt ttl prio due tgs s) = tasks s @ [t] \<and>
           id' t = length (tasks s) + 1 \<and> status t = ''offen'' \<and> title t = trim ttl) \<and>
      tasks (handleQuickAdd ttl s) =
        tasks s @ [\<lparr>id' = length (tasks s) + 1, title = trim ttl, status = ''offen'',
                     priority = ''normal'', dueDate = [], tags = []\<rparr>])"
  using handleAddTask_aborted [of ttl rt prio due tgs s] handleQuickAdd_aborted [of ttl s]
    handleAddTask_appends [of ttl rt prio due tgs s] handleQuickAdd_appends [of ttl s]
  by (cases "trim ttl = []") simp_all

theorem add_requires_title_witness:
  "trim ''  '' = [] \<and>
   handleAddTask utc ''  '' ''hoch'' [] [] (listing [taskAlpha] 0 []) =
     (listing [taskAlpha] 0 [])\<lparr>console := [AddHeading, AbortedNoTitle]\<rparr> \<and>
   trim '' Beta '' \<noteq> [] \<and>
   tasks (handleQuickAdd '' Beta '' (listing [taskAlpha] 0 [])) = [taskAlpha, taskBeta]"
proof -
  have e: "trim ''  '' = []" by code_simp
  have n: "trim '' Beta '' = ''Beta''" by code_simp
  from add_requires_title [of "''  ''" utc "''hoch''" "[]" "[]" "listing [taskAlpha] 0 []"] e
  have a: "handleAddTask utc ''  '' ''hoch'' [] [] (listing [taskAlpha] 0 []) =
     (listing [taskAlpha] 0 [])\<lparr>console := [AddHeading, AbortedNoTitle]\<rparr>"
    by simp
  from add_requires_title [of "'' Beta ''" utc "[]" "[]" "[]" "listing [taskAlpha] 0 []"] n
  have b: "tasks (handleQuickAdd '' Beta '' (listing [taskAlpha] 0 [])) = [taskAlpha, taskBeta]"
    by simp
  from e n a b show ?thesis by simp
qed

section \<open>Editing a task\<close>

text \<open>
  C9.  Editing the selected task: an answer that is empty after trimming leaves its
  field (title, priority, due date, tags) as it was; the answer \<open>keine\<close>, in any
  letter case, sets the due date to the empty string and, given for the tags, sets the
  tags to the empty list.  The id and the status are never changed, and no other task
  is touched.
\<close>

theorem edit_keeps_empty_and_clears_keine:
  assumes "0 \<le> selectedIndex s" and "selectedIndex s < int (length (tasks s))"
  shows "\<exists>s' t'.
     handleEditTask rt newTitle newPriority newDueDate newTags s = Inr s' \<and>
     tasks s' = (tasks s)[nat (selectedIndex s) := t'] \<and>
     id' t' = id' (tasks s ! nat (selectedIndex s)) \<and>
     status t' = status (tasks s ! nat (selectedIndex s)) \<and>
     (trim newTitle = [] \<longrightarrow> title t' = title (tasks s ! nat (selectedIndex s))) \<and>
     (trim newPriority = [] \<longrightarrow> priority t' = priority (tasks s ! nat (selectedIndex s))) \<and>
     (trim newDueDate = [] \<longrightarrow> dueDate t' = dueDate (tasks s ! nat (selectedIndex s))) \<and>
     (trim newTags = [] \<longrightarrow> tags t' = tags (tasks s ! nat (selectedIndex s))) \<and>
     (toLowerCase (trim newDueDate) = ''keine'' \<longrightarrow> dueDate t' = []) \<and>
     (toLowerCase (trim newTags) = ''keine'' \<longrightarrow> tags t' = [])"
proof -
  define old where "old = tasks s ! nat (selectedIndex s)"
  define t1 where "t1 = (if trim newTitle \<noteq> [] then old\<lparr>title := trim newTitle\<rparr> else old)"
  define t2 where "t2 =
    (if trim newPriority \<noteq> [] \<and> toLowerCase (trim newPriority) \<in> set validPriorities
     then t1\<lparr>priority := toLowerCase (trim newPriority)\<rparr> else t1)"
  define t3 where "t3 =
    (if trim newDueDate \<noteq> [] then
       (if toLowerCase (trim newDueDate) = ''keine'' then t2\<lparr>dueDate := []\<rparr>
        else case parseDueDate rt (trim newDueDate) of
               Some d \<Rightarrow> t2\<lparr>dueDate := d\<rparr> | None \<Rightarrow> t2)
     else t2)"
  define t4 where "t4 =
    (if trim newTags \<noteq> [] then
       (if toLowerCase (trim newTags) = ''keine'' then t3\<lparr>tags := []\<rparr>
        else t3\<lparr>tags := parseTags newTags\<rparr>)
     else t3)"
  from assms have a: "at (tasks s) (selectedIndex s) = Some old"
    by (simp add: at_def old_def)
  from assms have g: "\<not> (length (tasks s) = 0 \<or> selectedIndex s \<ge> int (length (tasks s)))"
    by auto
  have run: "\<exists>s'. handleEditTask rt newTitle newPriority newDueDate newTags s = Inr s' \<and>
                  tasks s' = (tasks s)[nat (selectedIndex s) := t4]"
    unfolding handleEditTask_def using g a
    by (simp add: Let_def t1_def t2_def t3_def t4_def split: option.splits)
  have k1: "toLowerCase (trim newDueDate) = ''keine'' \<Longrightarrow> trim newDueDate \<noteq> []"
    by (auto simp add: toLowerCase_def)
  have k2: "toLowerCase (trim newTags) = ''keine'' \<Longrightarrow> trim newTags \<noteq> []"
    by (auto simp add: toLowerCase_def)
  have p1: "id' t4 = id' old" "status t4 = status old"
    by (simp_all add: t1_def t2_def t3_def t4_def split: option.splits)
  have p2: "trim newTitle = [] \<Longrightarrow> title t4 = title old"
    by (simp add: t1_def t2_def t3_def t4_def split: option.splits)
  have p3: "trim newPriority = [] \<Longrightarrow> priority t4 = priority old"
    by (simp add: t1_def t2_def t3_def t4_def split: option.splits)
  have p4: "trim newDueDate = [] \<Longrightarrow> dueDate t4 = dueDate old"
    by (simp add: t1_def t2_def t3_def t4_def split: option.splits)
  have p5: "trim newTags = [] \<Longrightarrow> tags t4 = tags old"
    by (simp add: t1_def t2_def t3_def t4_def split: option.splits)
  have p6: "toLowerCase (trim newDueDate) = ''keine'' \<Longrightarrow> dueDate t4 = []"
    using k1 by (simp add: t3_def t4_def)
  have p7: "toLowerCase (trim newTags) = ''keine'' \<Longrightarrow> tags t4 = []"
    using k2 by (simp add: t4_def)
  from run obtain s' where
    "handleEditTask rt newTitle newPriority newDueDate newTags s = Inr s'"
    "tasks s' = (tasks s)[nat (selectedIndex s) := t4]" by blast
  with p1 p2 p3 p4 p5 p6 p7 show ?thesis
    unfolding old_def [symmetric] by blast
qed

theorem edit_keeps_empty_and_clears_keine_witness:
  "0 \<le> selectedIndex (listing [taskRent] 0 []) \<and>
   selectedIndex (listing [taskRent] 0 []) < int (length (tasks (listing [taskRent] 0 []))) \<and>
   trim [] = [] \<and> toLowerCase (trim ''Keine'') = ''keine'' \<and>
   toLowerCase (trim '' KEINE '') = ''keine'' \<and>
   (\<exists>s'. handleEditTask utc [] [] ''Keine'' '' KEINE '' (listing [taskRent] 0 []) = Inr s' \<and>
         map id' (tasks s') = [1] \<and> map title (tasks s') = [''Pay rent''] \<and>
         map status (tasks s') = [''offen''] \<and> map priority (tasks s') = [''hoch''] \<and>
         map dueDate (tasks s') = [[]] \<and> map tags (tasks s') = [[]])"
proof -
  have h1: "0 \<le> selectedIndex (listing [taskRent] 0 [])" by simp
  have h2: "selectedIndex (listing [taskRent] 0 []) < int (length (tasks (listing [taskRent] 0 [])))"
    by simp
  have e: "trim [] = []" by code_simp
  have k1: "toLowerCase (trim ''Keine'') = ''keine''" by code_simp
  have k2: "toLowerCase (trim '' KEINE '') = ''keine''" by code_simp
  from edit_keeps_empty_and_clears_keine [OF h1 h2, of utc "[]" "[]" "''Keine''" "'' KEINE ''"]
  obtain s' t' where r:
    "handleEditTask utc [] [] ''Keine'' '' KEINE '' (listing [taskRent] 0 []) = Inr s'"
    "tasks s' = (tasks (listing [taskRent] 0 []))[nat (selectedIndex (listing [taskRent] 0 [])) := t']"
    "id' t' = id' (tasks (listing [taskRent] 0 []) ! nat (selectedIndex (listing [taskRent] 0 [])))"
    "status t' = status (tasks (listing [taskRent] 0 []) ! nat (selectedIndex (listing [taskRent] 0 [])))"
    "trim [] = [] \<longrightarrow>
       title t' = title (tasks (listing [taskRent] 0 []) ! nat (selectedIndex (listing [taskRent] 0 [])))"
    "trim [] = [] \<longrightarrow>
       priority t' = priority (tasks (listing [taskRent] 0 []) ! nat (selectedIndex (listing [taskRent] 0 [])))"
    "toLowerCase (trim ''Keine'') = ''keine'' \<longrightarrow> dueDate t' = []"
    "toLowerCase (trim '' KEINE '') = ''keine'' \<longrightarrow> tags t' = []"
    by blast
  from r(2) have ts: "tasks s' = [t']" by simp
  from r(3-8) e k1 k2 have
    "id' t' = 1 \<and> title t' = ''Pay rent'' \<and> status t' = ''offen'' \<and> priority t' = ''hoch'' \<and>
     dueDate t' = [] \<and> tags t' = []"
    by simp
  with ts r(1) have
    "\<exists>s'. handleEditTask utc [] [] ''Keine'' '' KEINE '' (listing [taskRent] 0 []) = Inr s' \<and>
         map id' (tasks s') = [1] \<and> map title (tasks s') = [''Pay rent''] \<and>
         map status (tasks s') = [''offen''] \<and> map priority (tasks s') = [''hoch''] \<and>
         map dueDate (tasks s') = [[]] \<and> map tags (tasks s') = [[]]"
    by simp
  with h1 h2 e k1 k2 show ?thesis by blast
qed

section \<open>The quick-add command\<close>

text \<open>
  C10.  The inputs \<open>quick\<close> and \<open>qa\<close> (trimmed, in any letter case) run the quick add
  with the next line as the title: a title that is not empty after trimming appends one
  task with priority \<open>normal\<close>, no due date and no tags; an empty one only prints the
  warning.  Either way the console gets the quick-add lines and no
  \<open>unknown command\<close> line.
\<close>

theorem quick_commands_accepted:
  assumes "toLowerCase (trim input) = ''quick'' \<or> toLowerCase (trim input) = ''qa''"
  shows "handleCommand rt input ans s = Prompt (handleQuickAdd (ans 0) s) \<and>
     (trim (ans 0) \<noteq> [] \<longrightarrow>
        handleQuickAdd (ans 0) s =
          s\<lparr>tasks := tasks s @ [\<lparr>id' = length (tasks s) + 1, title = trim (ans 0),
                                 status = ''offen'', priority = ''normal'', dueDate = [], tags = []\<rparr>],
            console := console s @ [QuickAddHeading, QuickAdded (trim (ans 0))]\<rparr>) \<and>
     (trim (ans 0) = [] \<longrightarrow>
        handleQuickAdd (ans 0) s = s\<lparr>console := console s @ [QuickAddHeading, AbortedNoTitle]\<rparr>)"
proof -
  from assms have "handleCommand rt input ans s = Prompt (handleQuickAdd (ans 0) s)"
    by (auto simp add: handleCommand_def Let_def)
  then show ?thesis
    using handleQuickAdd_aborted [of "ans 0" s] handleQuickAdd_appends [of "ans 0" s] by simp
qed

theorem quick_commands_accepted_witness:
  "toLowerCase (trim '' QA'') = ''qa'' \<and> trim '' Beta '' \<noteq> [] \<and>
   handleCommand utc '' QA'' (\<lambda>k. '' Beta '') (listing [taskAlpha] 0 []) =
     Prompt ((listing [taskAlpha] 0 [])\<lparr>tasks := [taskAlpha, taskBeta],
                                        console := [QuickAddHeading, QuickAdded ''Beta'']\<rparr>) \<and>
   toLowerCase (trim ''quick'') = ''quick'' \<and> trim ''  '' = [] \<and>
   handleCommand utc ''quick'' (\<lambda>k. ''  '') (listing [taskAlpha] 0 []) =
     Prompt ((listing [taskAlpha] 0 [])\<lparr>console := [QuickAddHeading, AbortedNoTitle]\<rparr>)"
proof -
  have c1: "toLowerCase (trim '' QA'') = ''qa''" by code_simp
  have c2: "toLowerCase (trim ''quick'') = ''quick''" by code_simp
  have n: "trim '' Beta '' = ''Beta''" by code_simp
  have e: "trim ''  '' = []" by code_simp
  from c1 have d1: "toLowerCase (trim '' QA'') = ''quick'' \<or> toLowerCase (trim '' QA'') = ''qa''"
    by blast
  from c2 have d2: "toLowerCase (trim ''quick'') = ''quick'' \<or> toLowerCase (trim ''quick'') = ''qa''"
    by blast
  from quick_commands_accepted [OF d1, of utc "\<lambda>k. '' Beta ''" "listing [taskAlpha] 0 []"] n
  have a: "handleCommand utc '' QA'' (\<lambda>k. '' Beta '') (listing [taskAlpha] 0 []) =
     Prompt ((listing [taskAlpha] 0 [])\<lparr>tasks := [taskAlpha, taskBeta],
                                        console := [QuickAddHeading, QuickAdded ''Beta'']\<rparr>)"
    by simp
  from quick_commands_accepted [OF d2, of utc "\<lambda>k. ''  ''" "listing [taskAlpha] 0 []"] e
  have b: "handleCommand utc ''quick'' (\<lambda>k. ''  '') (listing [taskAlpha] 0 []) =
     Prompt ((listing [taskAlpha] 0 [])\<lparr>console := [QuickAddHeading, AbortedNoTitle]\<rparr>)"
    by simp
  from c1 c2 n e a b show ?thesis by simp
qed

end
